theory Spec2Isabelle
  imports Complex_Main "HOL-Library.Char_ord" "HOL-Library.List_Lexorder"
    "HOL-Library.Product_Lexorder"
begin

section \<open>The supply chain scenario calculator of \<^verbatim>\<open>app.py\<close>\<close>

text \<open>
  The script reads a table of purchased items, checks its header, cleans three columns,
  builds a baseline and a scenario tariff map, computes landed costs, scans candidate
  countries for a cheaper source and reports totals.

  Conventions of the embedding:
  \<^item> a Python \<^verbatim>\<open>float\<close> of the data frame is a \<open>pyfloat\<close>: a real number, one of the
    two infinities, or the value that is not a number; arithmetic and comparisons treat
    the three special values as IEEE 754 does, and finite results are not rounded;
  \<^item> the integer column is a 64-bit integer, held in an \<^typ>\<open>int\<close> within that range;
  \<^item> a Python \<^verbatim>\<open>dict\<close> (insertion ordered) is an association list with distinct keys;
  \<^item> the data frame returned by \<^verbatim>\<open>pd.read_csv\<close> is a header (the column names) and
    a list of rows; what the library parsed out of a cell is a \<open>cell\<close>;
  \<^item> \<^verbatim>\<open>st.stop()\<close> ends the run, and so does an exception, which the script never
    catches: the run returns the error and nothing else;
  \<^item> strings are compared as Python compares them, character code by character code.
\<close>

subsection \<open>Floating-point values\<close>

datatype pyfloat = Fin real | PosInf | NegInf | NotNum

instantiation pyfloat :: "{zero, one, plus, uminus, minus, times, inverse, ord}"
begin

definition zero_pyfloat :: pyfloat where
  "zero_pyfloat = Fin 0"

definition one_pyfloat :: pyfloat where
  "one_pyfloat = Fin 1"

fun plus_pyfloat :: "pyfloat \<Rightarrow> pyfloat \<Rightarrow> pyfloat" where
  "Fin a + Fin b = Fin (a + b)"
| "NotNum + y = NotNum"
| "x + NotNum = NotNum"
| "PosInf + NegInf = NotNum"
| "NegInf + PosInf = NotNum"
| "PosInf + y = PosInf"
| "x + PosInf = PosInf"
| "NegInf + y = NegInf"
| "x + NegInf = NegInf"

fun uminus_pyfloat :: "pyfloat \<Rightarrow> pyfloat" where
  "- Fin a = Fin (- a)"
| "- PosInf = NegInf"
| "- NegInf = PosInf"
| "- NotNum = NotNum"

definition minus_pyfloat :: "pyfloat \<Rightarrow> pyfloat \<Rightarrow> pyfloat" where
  "minus_pyfloat x y = x + (- y)"

fun times_pyfloat :: "pyfloat \<Rightarrow> pyfloat \<Rightarrow> pyfloat" where
  "Fin a * Fin b = Fin (a * b)"
| "NotNum * y = NotNum"
| "x * NotNum = NotNum"
| "Fin a * PosInf = (if a = 0 then NotNum else if 0 < a then PosInf else NegInf)"
| "Fin a * NegInf = (if a = 0 then NotNum else if 0 < a then NegInf else PosInf)"
| "PosInf * Fin b = (if b = 0 then NotNum else if 0 < b then PosInf else NegInf)"
| "NegInf * Fin b = (if b = 0 then NotNum else if 0 < b then NegInf else PosInf)"
| "PosInf * PosInf = PosInf"
| "PosInf * NegInf = NegInf"
| "NegInf * PosInf = NegInf"
| "NegInf * NegInf = PosInf"

fun divide_pyfloat :: "pyfloat \<Rightarrow> pyfloat \<Rightarrow> pyfloat" where
  "divide_pyfloat (Fin a) (Fin b) =
     (if b = 0 then (if a = 0 then NotNum else if 0 < a then PosInf else NegInf)
      else Fin (a / b))"
| "divide_pyfloat NotNum y = NotNum"
| "divide_pyfloat x NotNum = NotNum"
| "divide_pyfloat (Fin a) PosInf = Fin 0"
| "divide_pyfloat (Fin a) NegInf = Fin 0"
| "divide_pyfloat PosInf (Fin b) = (if 0 \<le> b then PosInf else NegInf)"
| "divide_pyfloat NegInf (Fin b) = (if 0 \<le> b then NegInf else PosInf)"
| "divide_pyfloat PosInf PosInf = NotNum"
| "divide_pyfloat PosInf NegInf = NotNum"
| "divide_pyfloat NegInf PosInf = NotNum"
| "divide_pyfloat NegInf NegInf = NotNum"

definition inverse_pyfloat :: "pyfloat \<Rightarrow> pyfloat" where
  "inverse_pyfloat x = divide (Fin 1) x"

fun less_eq_pyfloat :: "pyfloat \<Rightarrow> pyfloat \<Rightarrow> bool" where
  "less_eq_pyfloat (Fin a) (Fin b) = (a \<le> b)"
| "less_eq_pyfloat NotNum y = False"
| "less_eq_pyfloat x NotNum = False"
| "less_eq_pyfloat NegInf y = True"
| "less_eq_pyfloat x PosInf = True"
| "less_eq_pyfloat PosInf (Fin b) = False"
| "less_eq_pyfloat PosInf NegInf = False"
| "less_eq_pyfloat (Fin a) NegInf = False"

definition less_pyfloat :: "pyfloat \<Rightarrow> pyfloat \<Rightarrow> bool" where
  "less_pyfloat x y = (x \<le> y \<and> \<not> y \<le> x)"

instance ..

end

text \<open>
  Python's \<^verbatim>\<open>max(a, b)\<close> keeps its first argument unless the second is greater, and
  \<^verbatim>\<open>min\<close> of a list keeps the earliest element unless a later one is smaller.
\<close>

definition py_max :: "pyfloat \<Rightarrow> pyfloat \<Rightarrow> pyfloat" where
  "py_max a b = (if a < b then b else a)"

definition py_min :: "pyfloat list \<Rightarrow> pyfloat" where
  "py_min xs = (case xs of [] \<Rightarrow> NotNum | x # ys \<Rightarrow> fold (\<lambda>y m. if y < m then y else m) ys x)"

subsection \<open>Input data\<close>

text \<open>
  What \<^verbatim>\<open>pd.read_csv\<close> and \<^verbatim>\<open>pd.to_numeric(..., errors="coerce")\<close> make of a cell:
  \<open>Number x\<close> is a cell read as the finite number \<open>x\<close>, \<open>PlusInf\<close> and \<open>MinusInf\<close>
  a cell read as an infinity (such as \<^verbatim>\<open>inf\<close> or \<^verbatim>\<open>-1e999\<close>), \<open>Text s\<close> a cell whose
  text is not a number, \<open>NaN\<close> an empty cell.
\<close>

datatype cell = NaN | Number real | PlusInf | MinusInf | Text string

text \<open>
  A row as loaded. The column \<^verbatim>\<open>supplier_country\<close> is textual as a rule; the library
  reads its cells as numbers only when every non-empty cell of the column is one.
\<close>

record raw_item =
  raw_sku :: string
  raw_product_name :: string
  raw_base_cost :: cell
  raw_supplier_country :: cell
  raw_hs_code :: string
  raw_annual_units :: cell

record item =
  sku :: string
  product_name :: string
  base_cost :: pyfloat
  supplier_country :: string
  hs_code :: string
  annual_units :: int

record costed = item +
  baseline_tariff :: "real option"
  baseline_landed_cost :: pyfloat
  scenario_landed_cost :: pyfloat
  annual_cost_baseline :: pyfloat
  annual_cost_scenario :: pyfloat
  annual_delta :: pyfloat

record enriched = costed +
  alt_country :: string
  alt_landed_cost :: pyfloat
  savings_per_unit_if_switch :: pyfloat
  annual_savings_if_switch :: pyfloat

type_synonym tariffs = "(string \<times> real) list"

subsection \<open>Errors\<close>

text \<open>
  The schema error carries what the message prints: the missing columns and the expected
  ones. Any other error is an exception of the libraries that ends the script.
\<close>

datatype exn = TypeError | IntCastingNaNError | AttributeError | ValueError

datatype error = SchemaError "string set" "string list" | Uncaught exn

subsection \<open>Header check\<close>

text \<open>Lower-casing of the letters A to Z; other characters are left as they are.\<close>

definition lower_char :: "char \<Rightarrow> char" where
  "lower_char c =
     (let n = (of_char c :: nat) in if 65 \<le> n \<and> n \<le> 90 then char_of (n + 32) else c)"

definition lower :: "string \<Rightarrow> string" where
  "lower s = map lower_char s"

definition required :: "string list" where
  "required = [''sku'', ''product_name'', ''base_cost'', ''supplier_country'',
               ''hs_code'', ''annual_units'']"

definition missing :: "string list \<Rightarrow> string set" where
  "missing header = set required - set (map lower header)"

subsection \<open>Cleaning\<close>

definition to_numeric :: "cell \<Rightarrow> pyfloat option" where
  "to_numeric c =
     (case c of Number x \<Rightarrow> Some (Fin x) | PlusInf \<Rightarrow> Some PosInf | MinusInf \<Rightarrow> Some NegInf
      | _ \<Rightarrow> None)"

definition fillna :: "'a \<Rightarrow> 'a option \<Rightarrow> 'a" where
  "fillna d v = (case v of None \<Rightarrow> d | Some x \<Rightarrow> x)"

text \<open>
  \<^verbatim>\<open>astype(int)\<close> converts to 64-bit integers. A finite value loses its fractional part
  (rounding towards zero); a value beyond the 64-bit range comes out as the least 64-bit
  integer (the result of the conversion on x86-64); an infinite value makes the
  conversion raise \<^verbatim>\<open>IntCastingNaNError\<close>.
\<close>

definition truncate_real :: "real \<Rightarrow> int" where
  "truncate_real x = (if 0 \<le> x then \<lfloor>x\<rfloor> else \<lceil>x\<rceil>)"

definition int64_min :: int where
  "int64_min = - (2 ^ 63)"

definition in_int64 :: "int \<Rightarrow> bool" where
  "in_int64 n = (int64_min \<le> n \<and> n < 2 ^ 63)"

definition astype_int :: "pyfloat \<Rightarrow> exn + int" where
  "astype_int v =
     (case v of
        Fin x \<Rightarrow> Inr (if in_int64 (truncate_real x) then truncate_real x else int64_min)
      | _ \<Rightarrow> Inl IntCastingNaNError)"

text \<open>The text of a supplier cell; an empty cell is filled with \<open>Unknown\<close>.\<close>

definition country_text :: "cell \<Rightarrow> string option" where
  "country_text c = (case c of Text s \<Rightarrow> Some s | _ \<Rightarrow> None)"

definition numeric_cell :: "cell \<Rightarrow> bool" where
  "numeric_cell c = (case c of Number x \<Rightarrow> True | PlusInf \<Rightarrow> True | MinusInf \<Rightarrow> True | _ \<Rightarrow> False)"

definition clean_row :: "raw_item \<Rightarrow> item" where
  "clean_row r =
     \<lparr> sku = raw_sku r,
       product_name = raw_product_name r,
       base_cost = fillna 0 (to_numeric (raw_base_cost r)),
       supplier_country = fillna ''Unknown'' (country_text (raw_supplier_country r)),
       hs_code = raw_hs_code r,
       annual_units =
         (case astype_int (fillna 0 (to_numeric (raw_annual_units r))) of
            Inr n \<Rightarrow> n | Inl e \<Rightarrow> 0) \<rparr>"

text \<open>
  A column name that occurs twice after lower-casing makes \<^verbatim>\<open>df[name]\<close> a frame
  instead of a column: \<^verbatim>\<open>pd.to_numeric\<close> refuses a frame, and a frame has no
  \<^verbatim>\<open>unique()\<close>.
\<close>

definition duplicated :: "string list \<Rightarrow> string \<Rightarrow> bool" where
  "duplicated header name = (1 < count_list (map lower header) name)"

text \<open>
  The cleaning block and the collection of the countries, with the exceptions in the order
  in which the script meets them. The cleaned rows are used only when none is raised; a
  numeric supplier cell never gets past the sorting of the country names, which cannot
  compare a number with a name.
\<close>

definition clean :: "string list \<Rightarrow> raw_item list \<Rightarrow> error + item list" where
  "clean header df =
     (if duplicated header ''base_cost'' then Inl (Uncaught TypeError)
      else if duplicated header ''annual_units'' then Inl (Uncaught TypeError)
      else if \<exists>r \<in> set df. raw_annual_units r = PlusInf \<or> raw_annual_units r = MinusInf
        then Inl (Uncaught IntCastingNaNError)
      else if duplicated header ''supplier_country'' then Inl (Uncaught AttributeError)
      else if \<exists>r \<in> set df. numeric_cell (raw_supplier_country r) then Inl (Uncaught TypeError)
      else Inr (map clean_row df))"

subsection \<open>Tariff maps\<close>

definition builtin_tariffs :: tariffs where
  "builtin_tariffs =
     [(''China'', 0.20), (''Vietnam'', 0.08), (''India'', 0.10), (''Mexico'', 0.05),
      (''USA'', 0.00), (''Thailand'', 0.06), (''Malaysia'', 0.05), (''Indonesia'', 0.07),
      (''Taiwan'', 0.04), (''Unknown'', 0.00)]"

definition keys :: "tariffs \<Rightarrow> string list" where
  "keys m = map fst m"

definition dict_get :: "tariffs \<Rightarrow> string \<Rightarrow> real \<Rightarrow> real" where
  "dict_get m k d = (case map_of m k of None \<Rightarrow> d | Some v \<Rightarrow> v)"

definition setdefault :: "string \<Rightarrow> real \<Rightarrow> tariffs \<Rightarrow> tariffs" where
  "setdefault k v m = (if k \<in> set (keys m) then m else m @ [(k, v)])"

text \<open>\<^verbatim>\<open>Series.unique()\<close>: the distinct values in order of first appearance.\<close>

definition unique :: "'a list \<Rightarrow> 'a list" where
  "unique xs = fold (\<lambda>x seen. if x \<in> set seen then seen else seen @ [x]) xs []"

definition default_tariffs :: "item list \<Rightarrow> tariffs" where
  "default_tariffs df =
     fold (\<lambda>c m. setdefault c 0.05 m) (sort (unique (map supplier_country df))) builtin_tariffs"

text \<open>
  A widget holds a number within its bounds and nothing else. The session's state gives,
  for the label of a number input, the value typed, if any; \<open>bounded\<close> stands for the
  widget keeping that value between its minimum and its maximum. An untouched number
  input returns its default.
\<close>

definition bounded :: "real \<Rightarrow> real \<Rightarrow> real \<Rightarrow> real" where
  "bounded lo hi v = max lo (min hi v)"

definition number_input :: "(string \<Rightarrow> real option) \<Rightarrow> string \<Rightarrow> real \<Rightarrow> real \<Rightarrow> real \<Rightarrow> real" where
  "number_input widgets label min_value max_value v =
     (case widgets label of None \<Rightarrow> v | Some u \<Rightarrow> bounded min_value max_value u)"

definition slider :: "real \<Rightarrow> real \<Rightarrow> real \<Rightarrow> real" where
  "slider min_value max_value position = bounded min_value max_value position"

definition country_rates :: "(string \<Rightarrow> real option) \<Rightarrow> tariffs \<Rightarrow> tariffs" where
  "country_rates widgets dt =
     map (\<lambda>(c, v). (c, number_input widgets c 0 1 v)) (sort_key fst dt)"

subsection \<open>Cost model\<close>

definition landed_cost :: "'a item_scheme \<Rightarrow> tariffs \<Rightarrow> real \<Rightarrow> pyfloat" where
  "landed_cost row country_map fx =
     (let t = dict_get country_map (supplier_country row) 0.05
      in base_cost row * Fin (1 + t) * Fin fx)"

definition cost_columns :: "tariffs \<Rightarrow> tariffs \<Rightarrow> real \<Rightarrow> item \<Rightarrow> costed" where
  "cost_columns dt rates fx_adj row =
     (let bl = landed_cost row dt 1;
          sc = landed_cost row rates fx_adj;
          acb = bl * Fin (real_of_int (annual_units row));
          acs = sc * Fin (real_of_int (annual_units row))
      in item.extend row
           (costed.fields (map_of dt (supplier_country row)) bl sc acb acs (acs - acb)))"

subsection \<open>Recommendation\<close>

text \<open>
  \<^verbatim>\<open>set(...)\<close> has no defined iteration order: \<open>set_iter\<close> is the order in which the
  interpreter happens to enumerate the set built from a list (each element once).
\<close>

definition set_order :: "(string list \<Rightarrow> string list) \<Rightarrow> bool" where
  "set_order set_iter = (\<forall>xs. distinct (set_iter xs) \<and> set (set_iter xs) = set xs)"

definition named_candidates :: "string list" where
  "named_candidates = [''China'', ''Vietnam'', ''India'', ''Mexico'', ''Thailand'',
                       ''Malaysia'', ''Indonesia'', ''Taiwan'', ''USA'']"

definition candidate_countries :: "(string list \<Rightarrow> string list) \<Rightarrow> tariffs \<Rightarrow> string list" where
  "candidate_countries set_iter dt = sort (set_iter (keys dt @ named_candidates))"

definition alt_cost_of :: "tariffs \<Rightarrow> real \<Rightarrow> pyfloat \<Rightarrow> string \<Rightarrow> pyfloat" where
  "alt_cost_of rates fx_adj bc c = (let t = dict_get rates c 0.05 in bc * Fin (1 + t) * Fin fx_adj)"

text \<open>The \<^verbatim>\<open>for c in candidate_countries\<close> loop, with \<open>(best_country, best_cost)\<close> as state.\<close>

fun scan ::
    "tariffs \<Rightarrow> real \<Rightarrow> pyfloat \<Rightarrow> string list \<Rightarrow> string \<times> pyfloat \<Rightarrow> string \<times> pyfloat" where
  "scan rates fx_adj bc [] best = best"
| "scan rates fx_adj bc (c # cs) (best_country, best_cost) =
     (let alt_cost = alt_cost_of rates fx_adj bc c
      in if alt_cost < best_cost then scan rates fx_adj bc cs (c, alt_cost)
         else scan rates fx_adj bc cs (best_country, best_cost))"

definition best_alternative ::
    "string list \<Rightarrow> tariffs \<Rightarrow> real \<Rightarrow> 'a costed_scheme \<Rightarrow> string \<times> pyfloat \<times> pyfloat" where
  "best_alternative cands rates fx_adj row =
     (let current = supplier_country row;
          current_cost = scenario_landed_cost row;
          (best_country, best_cost) = scan rates fx_adj (base_cost row) cands (current, current_cost);
          savings_per_unit = py_max 0 (current_cost - best_cost)
      in (best_country, best_cost, savings_per_unit))"

definition alt_columns :: "string list \<Rightarrow> tariffs \<Rightarrow> real \<Rightarrow> costed \<Rightarrow> enriched" where
  "alt_columns cands rates fx_adj row =
     (case best_alternative cands rates fx_adj row of
        (ac, alc, sv) \<Rightarrow>
          costed.extend row
            (enriched.fields ac alc sv (sv * Fin (real_of_int (annual_units row)))))"

subsection \<open>Aggregates\<close>

text \<open>\<^verbatim>\<open>Series.sum()\<close> skips the values that are not numbers.\<close>

definition series_sum :: "pyfloat list \<Rightarrow> pyfloat" where
  "series_sum xs = foldl (+) 0 (filter (\<lambda>x. x \<noteq> NotNum) xs)"

record kpis =
  skus :: nat
  total_baseline :: pyfloat
  total_scenario :: pyfloat
  delta_total :: pyfloat
  delta_pct :: pyfloat

definition kpis_of :: "enriched list \<Rightarrow> kpis" where
  "kpis_of df =
     (let tb = series_sum (map annual_cost_baseline df);
          ts = series_sum (map annual_cost_scenario df);
          dl = ts - tb
      in \<lparr> skus = length df, total_baseline = tb, total_scenario = ts, delta_total = dl,
           delta_pct = (if tb \<noteq> 0 then dl / tb * Fin 100 else 0) \<rparr>)"

text \<open>
  \<^verbatim>\<open>sort_values(col, ascending=False)\<close>: rows by decreasing value of the column, those
  without a number last (the order among equal values is the library's; here the earlier
  row stays first).
\<close>

fun desc_key :: "pyfloat \<Rightarrow> nat \<times> real" where
  "desc_key PosInf = (0, 0)"
| "desc_key (Fin x) = (1, - x)"
| "desc_key NegInf = (2, 0)"
| "desc_key NotNum = (3, 0)"

definition sort_desc :: "('a \<Rightarrow> pyfloat) \<Rightarrow> 'a list \<Rightarrow> 'a list" where
  "sort_desc f xs = sort_key (\<lambda>x. desc_key (f x)) xs"

definition top_inc_of :: "enriched list \<Rightarrow> enriched list" where
  "top_inc_of df = take 15 (sort_desc annual_delta df)"

definition share_of :: "enriched list \<Rightarrow> (string \<times> pyfloat) list" where
  "share_of df =
     sort_desc snd
       (map (\<lambda>c. (c, series_sum (map annual_cost_scenario (filter (\<lambda>r. supplier_country r = c) df))))
            (sort (unique (map supplier_country df))))"

definition recs_of :: "enriched list \<Rightarrow> enriched list" where
  "recs_of df = take 15 (sort_desc annual_savings_if_switch (filter (\<lambda>r. 0 < annual_savings_if_switch r) df))"

subsection \<open>The whole run\<close>

record result =
  baseline_map :: tariffs
  scenario_map :: tariffs
  fx_adj :: real
  candidates :: "string list"
  table :: "enriched list"
  kpi :: kpis
  top_inc :: "enriched list"
  share :: "(string \<times> pyfloat) list"
  recs :: "enriched list"

text \<open>
  Everything from the tariff maps to the aggregates, on a cleaned frame with rows:
  \<^verbatim>\<open>df.apply(f, axis=1)\<close> is the map of \<open>f\<close> over the rows, and assigning its result to
  new columns extends every row by these fields. \<open>fx\<close> is the position of the FX slider.
\<close>

definition tables ::
    "(string list \<Rightarrow> string list) \<Rightarrow> item list \<Rightarrow> (string \<Rightarrow> real option) \<Rightarrow> real \<Rightarrow> result" where
  "tables set_iter df widgets fx =
     (let dt = default_tariffs df;
          rates = country_rates widgets dt;
          fxa = slider 0.80 1.20 fx;
          df1 = map (cost_columns dt rates fxa) df;
          cands = candidate_countries set_iter dt;
          df2 = map (alt_columns cands rates fxa) df1
      in \<lparr> baseline_map = dt, scenario_map = rates, fx_adj = fxa, candidates = cands,
           table = df2, kpi = kpis_of df2, top_inc = top_inc_of df2, share = share_of df2,
           recs = recs_of df2 \<rparr>)"

text \<open>
  On a frame without rows \<^verbatim>\<open>df.apply(best_alternative, axis=1)\<close> returns a copy of the
  frame instead of the three new columns, and assigning it to them raises
  \<^verbatim>\<open>ValueError\<close>: the script ends there, before any aggregate.
\<close>

definition compute ::
    "(string list \<Rightarrow> string list) \<Rightarrow> string list \<Rightarrow> raw_item list \<Rightarrow> (string \<Rightarrow> real option)
       \<Rightarrow> real \<Rightarrow> error + result" where
  "compute set_iter header raw widgets fx =
     (case clean header raw of
        Inl e \<Rightarrow> Inl e
      | Inr df \<Rightarrow> if df = [] then Inl (Uncaught ValueError)
                  else Inr (tables set_iter df widgets fx))"

text \<open>
  The header check comes first: when it fails, \<^verbatim>\<open>st.stop()\<close> ends the script and no row
  is looked at.
\<close>

definition run ::
    "(string list \<Rightarrow> string list) \<Rightarrow> string list \<Rightarrow> raw_item list \<Rightarrow> (string \<Rightarrow> real option)
       \<Rightarrow> real \<Rightarrow> error + result" where
  "run set_iter header raw widgets fx =
     (if missing header \<noteq> {} then Inl (SchemaError (missing header) (sort required))
      else compute set_iter header raw widgets fx)"

subsection \<open>The resolved rate, in the words of the specification\<close>

text \<open>The rate of a country under a map: the map's entry if there is one, else \<open>0.05\<close>.\<close>

definition resolve :: "tariffs \<Rightarrow> string \<Rightarrow> real" where
  "resolve m country = (case map_of m country of Some rate \<Rightarrow> rate | None \<Rightarrow> 0.05)"

subsection \<open>Sample data\<close>

text \<open>The two rows that the page shows as the expected format, and variations of them.\<close>

definition sample_header :: "string list" where
  "sample_header = [''sku'', ''product_name'', ''base_cost'', ''supplier_country'',
                    ''hs_code'', ''annual_units'']"

definition sample_row :: "string \<Rightarrow> string \<Rightarrow> cell \<Rightarrow> cell \<Rightarrow> cell \<Rightarrow> raw_item" where
  "sample_row s n c ctry u =
     \<lparr> raw_sku = s, raw_product_name = n, raw_base_cost = c, raw_supplier_country = ctry,
       raw_hs_code = ''850440'', raw_annual_units = u \<rparr>"

definition sample_rows :: "raw_item list" where
  "sample_rows =
     [sample_row ''SKU-001'' ''Widget A'' (Number 12.5) (Text ''China'') (Number 20000),
      sample_row ''SKU-002'' ''Widget B'' (Number 8.2) (Text ''Vietnam'') (Number 15000)]"

definition untouched :: "string \<Rightarrow> real option" where
  "untouched label = None"

text \<open>The record of the specification's worked example, and a session that edits one rate.\<close>

definition spec_rows :: "raw_item list" where
  "spec_rows = [sample_row ''SKU-001'' ''Widget A'' (Number 10) (Text ''China'') (Number 100)]"

definition china_rate :: "real \<Rightarrow> string \<Rightarrow> real option" where
  "china_rate x label = (if label = ''China'' then Some x else None)"

text \<open>
  A supplier country outside the built-in table, rows with invalid and negative cells, a
  row with an infinite cost, a row without a cost, and a second enumeration order for sets.
\<close>

definition germany_rows :: "raw_item list" where
  "germany_rows =
     [sample_row ''SKU-001'' ''Widget A'' (Number 10) (Text ''Germany'') (Number 100),
      sample_row ''SKU-002'' ''Widget B'' (Number 10) (Text ''China'') (Number 100)]"

definition germany_rate :: "real \<Rightarrow> string \<Rightarrow> real option" where
  "germany_rate x label = (if label = ''Germany'' then Some x else None)"


definition inf_rows :: "raw_item list" where
  "inf_rows = [sample_row ''SKU-001'' ''Widget A'' PlusInf (Text ''China'') (Number 100)]"

definition free_rows :: "raw_item list" where
  "free_rows = [sample_row ''SKU-001'' ''Widget A'' (Text ''free'') (Text ''China'') (Number 20000)]"

definition reversed_iter :: "string list \<Rightarrow> string list" where
  "reversed_iter xs = rev (remdups xs)"

section \<open>Properties\<close>

subsection \<open>Auxiliary facts\<close>

lemma fle_refl: "x \<noteq> NotNum \<Longrightarrow> x \<le> (x::pyfloat)"
  by (cases x) simp_all

lemma fle_trans: "x \<le> y \<Longrightarrow> y \<le> z \<Longrightarrow> x \<le> (z::pyfloat)"
  by (cases x; cases y; cases z) simp_all

lemma flt_le_trans: "x < y \<Longrightarrow> y \<le> z \<Longrightarrow> x \<le> (z::pyfloat)"
  by (cases x; cases y; cases z) (simp_all add: less_pyfloat_def)

lemma flt_not_nan: "x < (y::pyfloat) \<Longrightarrow> x \<noteq> NotNum"
  by (cases x) (simp_all add: less_pyfloat_def)

lemma fle_not_lt: "x \<le> y \<Longrightarrow> \<not> y < (x::pyfloat)"
  by (simp add: less_pyfloat_def)

lemma fle_linear: "x \<noteq> NotNum \<Longrightarrow> y \<noteq> NotNum \<Longrightarrow> \<not> y < x \<Longrightarrow> x \<le> (y::pyfloat)"
  by (cases x; cases y) (auto simp: less_pyfloat_def)

lemma fle_not_nan: "x \<le> (y::pyfloat) \<Longrightarrow> x \<noteq> NotNum \<and> y \<noteq> NotNum"
  by (cases x; cases y) simp_all

lemma scale_not_nan: "x \<noteq> NotNum \<Longrightarrow> 0 < a \<Longrightarrow> x * Fin a \<noteq> NotNum"
  by (cases x) simp_all

lemma py_max_0: "py_max 0 d = max 0 d"
  by (cases d) (auto simp: py_max_def max_def less_pyfloat_def zero_pyfloat_def)

lemma max_0_nonneg: "0 \<le> max 0 (d::pyfloat)"
  by (cases d) (auto simp: max_def zero_pyfloat_def)

lemma diff_nan_iff:
  "a \<le> b \<Longrightarrow> (b - a = NotNum) = (a = b \<and> (b = PosInf \<or> b = NegInf))"
  by (cases a; cases b) (simp_all add: minus_pyfloat_def)

lemma max_0_diff: "a \<le> b \<Longrightarrow> b - a \<noteq> NotNum \<Longrightarrow> max 0 (b - a) = b - (a::pyfloat)"
  by (cases a; cases b) (auto simp: minus_pyfloat_def max_def zero_pyfloat_def)

lemma max_0_nan: "max 0 NotNum = (0::pyfloat)"
  by (simp add: max_def zero_pyfloat_def)

lemma cost_columns_sel:
  "sku (cost_columns dt rates fx row) = sku row"
  "product_name (cost_columns dt rates fx row) = product_name row"
  "base_cost (cost_columns dt rates fx row) = base_cost row"
  "supplier_country (cost_columns dt rates fx row) = supplier_country row"
  "hs_code (cost_columns dt rates fx row) = hs_code row"
  "annual_units (cost_columns dt rates fx row) = annual_units row"
  "baseline_tariff (cost_columns dt rates fx row) = map_of dt (supplier_country row)"
  "baseline_landed_cost (cost_columns dt rates fx row) = landed_cost row dt 1"
  "scenario_landed_cost (cost_columns dt rates fx row) = landed_cost row rates fx"
  "annual_cost_baseline (cost_columns dt rates fx row)
     = landed_cost row dt 1 * Fin (real_of_int (annual_units row))"
  "annual_cost_scenario (cost_columns dt rates fx row)
     = landed_cost row rates fx * Fin (real_of_int (annual_units row))"
  "annual_delta (cost_columns dt rates fx row) =
     landed_cost row rates fx * Fin (real_of_int (annual_units row))
       - landed_cost row dt 1 * Fin (real_of_int (annual_units row))"
  by (simp_all add: cost_columns_def Let_def item.defs costed.defs)

lemma alt_columns_sel:
  "sku (alt_columns cands rates fx row) = sku row"
  "product_name (alt_columns cands rates fx row) = product_name row"
  "base_cost (alt_columns cands rates fx row) = base_cost row"
  "supplier_country (alt_columns cands rates fx row) = supplier_country row"
  "hs_code (alt_columns cands rates fx row) = hs_code row"
  "annual_units (alt_columns cands rates fx row) = annual_units row"
  "baseline_tariff (alt_columns cands rates fx row) = baseline_tariff row"
  "baseline_landed_cost (alt_columns cands rates fx row) = baseline_landed_cost row"
  "scenario_landed_cost (alt_columns cands rates fx row) = scenario_landed_cost row"
  "annual_cost_baseline (alt_columns cands rates fx row) = annual_cost_baseline row"
  "annual_cost_scenario (alt_columns cands rates fx row) = annual_cost_scenario row"
  "annual_delta (alt_columns cands rates fx row) = annual_delta row"
  "alt_country (alt_columns cands rates fx row) =
     fst (scan rates fx (base_cost row) cands (supplier_country row, scenario_landed_cost row))"
  "alt_landed_cost (alt_columns cands rates fx row) =
     snd (scan rates fx (base_cost row) cands (supplier_country row, scenario_landed_cost row))"
  "savings_per_unit_if_switch (alt_columns cands rates fx row) =
     max 0 (scenario_landed_cost row
            - snd (scan rates fx (base_cost row) cands (supplier_country row, scenario_landed_cost row)))"
  "annual_savings_if_switch (alt_columns cands rates fx row) =
     savings_per_unit_if_switch (alt_columns cands rates fx row) * Fin (real_of_int (annual_units row))"
  by (simp_all add: alt_columns_def best_alternative_def Let_def costed.defs enriched.defs
        py_max_0 split: prod.splits)

lemma scan_cost_le: "cost \<noteq> NotNum \<Longrightarrow> snd (scan rates fx bc cs (b, cost)) \<le> cost"
proof (induction cs arbitrary: b cost)
  case Nil
  then show ?case by (simp add: fle_refl)
next
  case (Cons c cs)
  show ?case
  proof (cases "alt_cost_of rates fx bc c < cost")
    case True
    then have "alt_cost_of rates fx bc c \<noteq> NotNum"
      by (rule flt_not_nan)
    then have "snd (scan rates fx bc cs (c, alt_cost_of rates fx bc c)) \<le> alt_cost_of rates fx bc c"
      by (rule Cons.IH)
    moreover have "alt_cost_of rates fx bc c \<le> cost"
      using True by (simp add: less_pyfloat_def)
    ultimately have "snd (scan rates fx bc cs (c, alt_cost_of rates fx bc c)) \<le> cost"
      by (rule fle_trans)
    with True show ?thesis by (simp add: Let_def)
  next
    case False
    with Cons.IH [OF Cons.prems, of b] show ?thesis by (simp add: Let_def)
  qed
qed

lemma scan_keep:
  "\<forall>c \<in> set cs. cost \<le> alt_cost_of rates fx bc c \<Longrightarrow> scan rates fx bc cs (b, cost) = (b, cost)"
  by (induction cs) (auto simp: Let_def dest: fle_not_lt)

lemma scan_country:
  "fst (scan rates fx bc cs (b, cost)) = b \<or> fst (scan rates fx bc cs (b, cost)) \<in> set cs"
proof (induction cs arbitrary: b cost)
  case Nil
  show ?case by simp
next
  case (Cons c cs)
  show ?case
  proof (cases "alt_cost_of rates fx bc c < cost")
    case True
    with Cons.IH [of c "alt_cost_of rates fx bc c"] show ?thesis by (auto simp: Let_def)
  next
    case False
    with Cons.IH [of b cost] show ?thesis by (auto simp: Let_def)
  qed
qed

lemma fold_min_le:
  assumes "m \<noteq> NotNum" and "\<forall>y \<in> set ys. y \<noteq> NotNum"
  shows "fold (\<lambda>y m. if y < m then y else m) ys m \<le> m \<and>
         (\<forall>y \<in> set ys. fold (\<lambda>y m. if y < m then y else m) ys m \<le> y)"
  using assms
proof (induction ys arbitrary: m)
  case Nil
  then show ?case by (simp add: fle_refl)
next
  case (Cons y ys)
  let ?f = "\<lambda>y m. if y < m then y else (m::pyfloat)"
  have y: "y \<noteq> NotNum" and ys: "\<forall>z \<in> set ys. z \<noteq> NotNum"
    using Cons.prems(2) by simp_all
  show ?case
  proof (cases "y < m")
    case True
    from Cons.IH [OF y ys]
    have a: "fold ?f ys y \<le> y" and b: "\<forall>z \<in> set ys. fold ?f ys y \<le> z"
      by simp_all
    have "y \<le> m" using True by (simp add: less_pyfloat_def)
    with a have "fold ?f ys y \<le> m" by (rule fle_trans)
    with a b True show ?thesis by simp
  next
    case False
    from Cons.IH [OF Cons.prems(1) ys]
    have a: "fold ?f ys m \<le> m" and b: "\<forall>z \<in> set ys. fold ?f ys m \<le> z"
      by simp_all
    have "m \<le> y" using Cons.prems(1) y False by (rule fle_linear)
    with a have "fold ?f ys m \<le> y" by (rule fle_trans)
    with a b False show ?thesis by simp
  qed
qed

lemma py_min_le:
  assumes "\<forall>y \<in> set xs. y \<noteq> NotNum" and "y \<in> set xs"
  shows "py_min xs \<le> y"
proof (cases xs)
  case Nil
  with assms(2) show ?thesis by simp
next
  case (Cons x ys)
  with assms(1) have "x \<noteq> NotNum" and "\<forall>z \<in> set ys. z \<noteq> NotNum"
    by simp_all
  from fold_min_le [OF this] assms(2) Cons show ?thesis
    by (auto simp: py_min_def)
qed

lemma set_unique_aux:
  "set (fold (\<lambda>x seen. if x \<in> set seen then seen else seen @ [x]) xs acc) = set acc \<union> set xs"
  by (induction xs arbitrary: acc) auto

lemma set_unique: "set (unique xs) = set xs"
  by (simp add: unique_def set_unique_aux)

lemma keys_fold_setdefault:
  "set (keys (fold (\<lambda>c m. setdefault c v m) cs m)) = set (keys m) \<union> set cs"
  by (induction cs arbitrary: m) (auto simp: setdefault_def keys_def)

lemma keys_default_tariffs:
  "set (keys (default_tariffs df)) = set (keys builtin_tariffs) \<union> supplier_country ` set df"
  by (simp add: default_tariffs_def keys_fold_setdefault set_unique)

lemma values_setdefault:
  "\<forall>v \<in> snd ` set m. 0 \<le> v \<Longrightarrow> 0 \<le> d \<Longrightarrow> \<forall>v \<in> snd ` set (setdefault c d m). 0 \<le> v"
  by (auto simp: setdefault_def)

lemma values_fold_setdefault:
  "\<forall>v \<in> snd ` set m. 0 \<le> v \<Longrightarrow> 0 \<le> d
     \<Longrightarrow> \<forall>v \<in> snd ` set (fold (\<lambda>c m. setdefault c d m) cs m). 0 \<le> v"
proof (induction cs arbitrary: m)
  case Nil
  then show ?case by simp
next
  case (Cons c cs)
  from Cons.prems have "\<forall>v \<in> snd ` set (setdefault c d m). 0 \<le> v"
    by (rule values_setdefault)
  from Cons.IH [OF this Cons.prems(2)] show ?case by simp
qed

lemma values_builtin: "\<forall>v \<in> snd ` set builtin_tariffs. 0 \<le> v"
  by (simp add: builtin_tariffs_def)

lemma values_default_tariffs: "\<forall>v \<in> snd ` set (default_tariffs df). 0 \<le> v"
  unfolding default_tariffs_def by (rule values_fold_setdefault [OF values_builtin]) simp

lemma values_country_rates:
  "\<forall>v \<in> snd ` set dt. 0 \<le> v \<Longrightarrow> \<forall>v \<in> snd ` set (country_rates widgets dt). 0 \<le> v"
  by (auto simp: country_rates_def number_input_def bounded_def split: option.splits)

lemma dict_get_nonneg: "\<forall>v \<in> snd ` set m. 0 \<le> v \<Longrightarrow> 0 \<le> d \<Longrightarrow> 0 \<le> dict_get m k d"
  by (auto simp: dict_get_def split: option.splits dest!: map_of_SomeD)

lemma slider_pos: "0 < slider 0.80 1.20 fx"
  by (simp add: slider_def bounded_def max_def)

lemma base_cost_clean_row: "base_cost (clean_row r) \<noteq> NotNum"
  by (simp add: clean_row_def fillna_def to_numeric_def zero_pyfloat_def split: cell.splits)

lemma alt_cost_not_nan:
  assumes "bc \<noteq> NotNum" and "\<forall>v \<in> snd ` set rates. 0 \<le> v" and "0 < fx"
  shows "alt_cost_of rates fx bc c \<noteq> NotNum"
proof -
  have "0 \<le> dict_get rates c 0.05"
    using assms(2) by (rule dict_get_nonneg) simp
  then have "0 < 1 + dict_get rates c 0.05" by simp
  with assms(1) have "bc * Fin (1 + dict_get rates c 0.05) \<noteq> NotNum"
    by (rule scale_not_nan)
  then show ?thesis
    unfolding alt_cost_of_def Let_def using assms(3) by (rule scale_not_nan)
qed

lemma landed_cost_alt_cost:
  "landed_cost row m fx = alt_cost_of m fx (base_cost row) (supplier_country row)"
  by (simp add: landed_cost_def alt_cost_of_def)

lemma landed_cost_resolve:
  "landed_cost row m fx = base_cost row * Fin (1 + resolve m (supplier_country row)) * Fin fx"
  by (simp add: landed_cost_def dict_get_def resolve_def split: option.splits)

lemma run_Inr:
  assumes "run set_iter header raw widgets fx = Inr out"
  shows "raw \<noteq> [] \<and> out = tables set_iter (map clean_row raw) widgets fx"
  using assms
  by (auto simp: run_def compute_def clean_def split: if_splits sum.splits)

lemma table_length:
  "run set_iter header raw widgets fx = Inr out \<Longrightarrow> length (table out) = length raw"
  by (drule run_Inr) (simp add: tables_def Let_def)

lemma run_maps:
  assumes "run set_iter header raw widgets fx = Inr out"
  shows "baseline_map out = default_tariffs (map clean_row raw)"
    and "scenario_map out = country_rates widgets (baseline_map out)"
    and "fx_adj out = slider 0.80 1.20 fx"
    and "candidates out = candidate_countries set_iter (baseline_map out)"
  using run_Inr [OF assms] by (simp_all add: tables_def Let_def)

lemma table_nth:
  assumes "run set_iter header raw widgets fx = Inr out" and "i < length raw"
  shows "table out ! i = alt_columns (candidates out) (scenario_map out) (fx_adj out)
           (cost_columns (baseline_map out) (scenario_map out) (fx_adj out) (clean_row (raw ! i)))"
  using run_Inr [OF assms(1)] assms(2) by (simp add: tables_def Let_def)

lemma run_rates_nonneg:
  assumes "run set_iter header raw widgets fx = Inr out"
  shows "\<forall>v \<in> snd ` set (scenario_map out). 0 \<le> v" and "0 < fx_adj out"
proof -
  have "\<forall>v \<in> snd ` set (country_rates widgets (default_tariffs (map clean_row raw))). 0 \<le> v"
    using values_default_tariffs by (rule values_country_rates)
  then show "\<forall>v \<in> snd ` set (scenario_map out). 0 \<le> v"
    by (simp only: run_maps [OF assms])
  show "0 < fx_adj out"
    by (simp only: run_maps [OF assms] slider_pos)
qed

lemma scenario_not_nan:
  assumes "run set_iter header raw widgets fx = Inr out" and "i < length raw"
  shows "scenario_landed_cost (table out ! i) \<noteq> NotNum"
  by (simp add: table_nth [OF assms] alt_columns_sel cost_columns_sel landed_cost_alt_cost
        alt_cost_not_nan [OF base_cost_clean_row run_rates_nonneg [OF assms(1)]])

lemma alt_le_scenario:
  assumes "run set_iter header raw widgets fx = Inr out" and "i < length raw"
  shows "alt_landed_cost (table out ! i) \<le> scenario_landed_cost (table out ! i)"
  using scenario_not_nan [OF assms]
  by (simp add: table_nth [OF assms] alt_columns_sel scan_cost_le)

lemma sort_set_order:
  assumes "set_order it1" and "set_order it2"
  shows "sort (it1 xs) = sort (it2 xs)"
proof -
  have "sort (it1 xs) = sorted_list_of_set (set xs)"
    using assms(1) by (metis set_order_def sorted_list_of_set_sort_remdups distinct_remdups_id)
  moreover have "sort (it2 xs) = sorted_list_of_set (set xs)"
    using assms(2) by (metis set_order_def sorted_list_of_set_sort_remdups distinct_remdups_id)
  ultimately show ?thesis by simp
qed

lemma sample_header_ok: "missing sample_header = {}"
  by code_simp

lemma sample_header_clean:
  assumes "\<forall>r \<in> set raw. raw_annual_units r \<noteq> PlusInf \<and> raw_annual_units r \<noteq> MinusInf"
    and "\<forall>r \<in> set raw. \<not> numeric_cell (raw_supplier_country r)"
  shows "clean sample_header raw = Inr (map clean_row raw)"
proof -
  have "\<not> duplicated sample_header ''base_cost''" "\<not> duplicated sample_header ''annual_units''"
    "\<not> duplicated sample_header ''supplier_country''"
    by code_simp+
  with assms show ?thesis by (auto simp: clean_def)
qed

lemma pct_guard: "total_baseline (kpis_of df) = 0 \<Longrightarrow> delta_pct (kpis_of df) = 0"
  by (simp add: kpis_of_def Let_def)

lemma compute_no_schema_error: "compute set_iter header raw widgets fx \<noteq> Inl (SchemaError m e)"
  by (auto simp: compute_def clean_def split: sum.splits if_splits)

lemma tables_order:
  assumes "set_order it1" and "set_order it2"
  shows "tables it1 df widgets fx = tables it2 df widgets fx"
  by (simp add: tables_def candidate_countries_def sort_set_order [OF assms])








lemma run_sample_header:
  assumes "raw \<noteq> []"
    and "\<forall>r \<in> set raw. raw_annual_units r \<noteq> PlusInf \<and> raw_annual_units r \<noteq> MinusInf"
    and "\<forall>r \<in> set raw. \<not> numeric_cell (raw_supplier_country r)"
  shows "run set_iter sample_header raw widgets fx
           = Inr (tables set_iter (map clean_row raw) widgets fx)"
  using assms(1) by (simp add: run_def sample_header_ok compute_def sample_header_clean [OF assms(2,3)])

lemma run_sample_rows:
  "run set_iter sample_header sample_rows widgets fx
     = Inr (tables set_iter (map clean_row sample_rows) widgets fx)"
  by (rule run_sample_header) (simp_all add: sample_rows_def sample_row_def numeric_cell_def)

lemma run_spec_rows:
  "run set_iter sample_header spec_rows widgets fx
     = Inr (tables set_iter (map clean_row spec_rows) widgets fx)"
  by (rule run_sample_header) (simp_all add: spec_rows_def sample_row_def numeric_cell_def)

lemma run_germany_rows:
  "run set_iter sample_header germany_rows widgets fx
     = Inr (tables set_iter (map clean_row germany_rows) widgets fx)"
  by (rule run_sample_header) (simp_all add: germany_rows_def sample_row_def numeric_cell_def)


lemma run_inf_rows:
  "run set_iter sample_header inf_rows widgets fx
     = Inr (tables set_iter (map clean_row inf_rows) widgets fx)"
  by (rule run_sample_header) (simp_all add: inf_rows_def sample_row_def numeric_cell_def)

subsection \<open>Cost model\<close>

text \<open>
  C1: for every record of the table, the scenario landed cost is the base cost times one
  plus the resolved scenario rate times the FX multiplier, the baseline landed cost is the
  same with the baseline map and a multiplier of 1, the annual costs are the landed costs
  times the annual units, and the annual delta is the scenario annual cost minus the
  baseline one. The resolved rate is the map's entry for the record's country, or 0.05.
  The table has one record per loaded row, in the same order.
\<close>

theorem cost_model_fields:
  assumes "run set_iter header raw widgets fx = Inr out" and "i < length raw"
  shows "length (table out) = length raw \<and>
         baseline_map out = default_tariffs (map clean_row raw) \<and>
         scenario_map out = country_rates widgets (baseline_map out) \<and>
         fx_adj out = slider 0.80 1.20 fx \<and>
         (let r = clean_row (raw ! i); e = table out ! i in
            base_cost e = base_cost r \<and> supplier_country e = supplier_country r \<and>
            annual_units e = annual_units r \<and>
            scenario_landed_cost e =
              base_cost r * Fin (1 + resolve (scenario_map out) (supplier_country r))
                * Fin (fx_adj out) \<and>
            baseline_landed_cost e =
              base_cost r * Fin (1 + resolve (baseline_map out) (supplier_country r)) * Fin 1 \<and>
            annual_cost_scenario e = scenario_landed_cost e * Fin (real_of_int (annual_units r)) \<and>
            annual_cost_baseline e = baseline_landed_cost e * Fin (real_of_int (annual_units r)) \<and>
            annual_delta e = annual_cost_scenario e - annual_cost_baseline e)"
proof -
  have len: "length (table out) = length raw"
    using assms(1) by (rule table_length)
  note maps = run_maps [OF assms(1)]
  note e = table_nth [OF assms]
  have fields: "let r = clean_row (raw ! i); e = table out ! i in
            base_cost e = base_cost r \<and> supplier_country e = supplier_country r \<and>
            annual_units e = annual_units r \<and>
            scenario_landed_cost e =
              base_cost r * Fin (1 + resolve (scenario_map out) (supplier_country r))
                * Fin (fx_adj out) \<and>
            baseline_landed_cost e =
              base_cost r * Fin (1 + resolve (baseline_map out) (supplier_country r)) * Fin 1 \<and>
            annual_cost_scenario e = scenario_landed_cost e * Fin (real_of_int (annual_units r)) \<and>
            annual_cost_baseline e = baseline_landed_cost e * Fin (real_of_int (annual_units r)) \<and>
            annual_delta e = annual_cost_scenario e - annual_cost_baseline e"
    by (simp add: e Let_def alt_columns_sel cost_columns_sel landed_cost_resolve)
  from len maps(1,2,3) fields show ?thesis
    by blast
qed

theorem cost_model_fields_witness:
  "run remdups sample_header spec_rows (china_rate (1 / 10)) 1
     = Inr (tables remdups (map clean_row spec_rows) (china_rate (1 / 10)) 1) \<and>
   0 < length spec_rows \<and>
   (let e = table (tables remdups (map clean_row spec_rows) (china_rate (1 / 10)) 1) ! 0 in
      baseline_landed_cost e = Fin 12 \<and> annual_cost_baseline e = Fin 1200 \<and>
      scenario_landed_cost e = Fin 11 \<and> annual_cost_scenario e = Fin 1100 \<and>
      annual_delta e = Fin (- 100))"
proof -
  let ?out = "tables remdups (map clean_row spec_rows) (china_rate (1 / 10)) 1"
  have h: "run remdups sample_header spec_rows (china_rate (1 / 10)) 1 = Inr ?out"
    by (rule run_spec_rows)
  have i: "0 < length spec_rows"
    by (simp add: spec_rows_def)
  have r: "base_cost (clean_row (spec_rows ! 0)) = Fin 10"
    "supplier_country (clean_row (spec_rows ! 0)) = ''China''"
    "annual_units (clean_row (spec_rows ! 0)) = 100"
    by code_simp+
  have m: "resolve (baseline_map ?out) ''China'' = 1 / 5"
    "resolve (scenario_map ?out) ''China'' = 1 / 10"
    "fx_adj ?out = 1"
    by code_simp+
  have "let e = table ?out ! 0 in
      baseline_landed_cost e = Fin 12 \<and> annual_cost_baseline e = Fin 1200 \<and>
      scenario_landed_cost e = Fin 11 \<and> annual_cost_scenario e = Fin 1100 \<and>
      annual_delta e = Fin (- 100)"
    using cost_model_fields [OF h i] unfolding Let_def r m
    by (simp add: minus_pyfloat_def)
  with h i show ?thesis
    by blast
qed

subsection \<open>Header check\<close>

text \<open>
  C2: when a required column is absent from the lower-cased header, the run ends with a
  schema error that carries exactly the missing columns (and the expected ones) and
  returns no table; when none is absent, the run goes on to the computation, which never
  reports a schema error.
\<close>

theorem schema_check:
  "(\<not> set required \<subseteq> set (map lower header) \<longrightarrow>
      run set_iter header raw widgets fx
        = Inl (SchemaError (set required - set (map lower header)) (sort required)) \<and>
      set required - set (map lower header) \<noteq> {}) \<and>
   (set required \<subseteq> set (map lower header) \<longrightarrow>
      run set_iter header raw widgets fx = compute set_iter header raw widgets fx \<and>
      (\<forall>m e. compute set_iter header raw widgets fx \<noteq> Inl (SchemaError m e)))"
  by (auto simp: run_def missing_def compute_no_schema_error)

theorem schema_check_witness:
  "\<not> set required \<subseteq> set (map lower [''SKU'', ''Product_Name'', ''base_cost'', ''supplier_country'', ''annual_units'']) \<and>
   run remdups [''SKU'', ''Product_Name'', ''base_cost'', ''supplier_country'', ''annual_units'']
       sample_rows untouched 1
     = Inl (SchemaError {''hs_code''}
              [''annual_units'', ''base_cost'', ''hs_code'', ''product_name'', ''sku'',
               ''supplier_country'']) \<and>
   set required \<subseteq> set (map lower [''SKU'', ''Product_Name'', ''Base_Cost'', ''supplier_country'', ''HS_code'', ''annual_units'', ''notes'']) \<and>
   run remdups [''SKU'', ''Product_Name'', ''Base_Cost'', ''supplier_country'', ''HS_code'', ''annual_units'', ''notes'']
       sample_rows untouched 1
     = Inr (tables remdups (map clean_row sample_rows) untouched 1)"
proof -
  let ?bad = "[''SKU'', ''Product_Name'', ''base_cost'', ''supplier_country'', ''annual_units'']"
  let ?good = "[''SKU'', ''Product_Name'', ''Base_Cost'', ''supplier_country'', ''HS_code'', ''annual_units'', ''notes'']"
  have a: "\<not> set required \<subseteq> set (map lower ?bad)"
    by code_simp
  have b: "set required - set (map lower ?bad) = {''hs_code''}"
    by code_simp
  have c: "sort required = [''annual_units'', ''base_cost'', ''hs_code'', ''product_name'', ''sku'',
               ''supplier_country'']"
    by code_simp
  have d: "set required \<subseteq> set (map lower ?good)"
    by code_simp
  have e: "clean ?good sample_rows = Inr (map clean_row sample_rows)"
    by code_simp
  have f: "compute remdups ?good sample_rows untouched 1
             = Inr (tables remdups (map clean_row sample_rows) untouched 1)"
    by (simp add: compute_def e) (simp add: sample_rows_def)
  from schema_check [of ?bad remdups sample_rows untouched 1]
       schema_check [of ?good remdups sample_rows untouched 1]
  show ?thesis
    using a d unfolding b c f by blast
qed

subsection \<open>Cleaning\<close>




subsection \<open>Recommendation\<close>

text \<open>
  A country of the data that the built-in table lacks is a candidate like any other: with
  the rate of Germany set to 0, the record supplied from China is sent to Germany.
\<close>

theorem alt_country_counterexample:
  "run remdups sample_header germany_rows (germany_rate 0) 1
     = Inr (tables remdups (map clean_row germany_rows) (germany_rate 0) 1) \<and>
   map supplier_country (table (tables remdups (map clean_row germany_rows) (germany_rate 0) 1))
     = [''Germany'', ''China''] \<and>
   map alt_country (table (tables remdups (map clean_row germany_rows) (germany_rate 0) 1))
     = [''Germany'', ''Germany''] \<and>
   ''Germany'' \<notin> set (keys builtin_tariffs) \<and> ''Germany'' \<notin> set named_candidates"
proof -
  have "run remdups sample_header germany_rows (germany_rate 0) 1
     = Inr (tables remdups (map clean_row germany_rows) (germany_rate 0) 1)"
    by (rule run_germany_rows)
  moreover have
    "map supplier_country (table (tables remdups (map clean_row germany_rows) (germany_rate 0) 1))
     = [''Germany'', ''China'']"
    by code_simp
  moreover have
    "map alt_country (table (tables remdups (map clean_row germany_rows) (germany_rate 0) 1))
     = [''Germany'', ''Germany'']"
    by code_simp
  moreover have "''Germany'' \<notin> set (keys builtin_tariffs)" "''Germany'' \<notin> set named_candidates"
    by code_simp+
  ultimately show ?thesis by blast
qed

text \<open>
  C3 (as amended): for every record, the alternative country is the record's current
  supplier country or a member of the candidate list, which holds the countries of the
  built-in table, the named candidates and every supplier country of the loaded records.
\<close>

theorem alt_country_candidates:
  assumes "run set_iter header raw widgets fx = Inr out" and "set_order set_iter"
    and "i < length raw"
  shows "alt_country (table out ! i) = supplier_country (table out ! i) \<or>
         alt_country (table out ! i)
           \<in> set (keys builtin_tariffs) \<union> set named_candidates
               \<union> supplier_country ` set (map clean_row raw)"
proof -
  let ?e = "table out ! i"
  have c: "candidates out = candidate_countries set_iter (default_tariffs (map clean_row raw))"
    by (simp only: run_maps [OF assms(1)])
  have "set (candidates out) = set (keys (default_tariffs (map clean_row raw)) @ named_candidates)"
    using assms(2) by (simp add: c candidate_countries_def set_order_def)
  then have s: "set (candidates out)
          = set (keys builtin_tariffs) \<union> supplier_country ` set (map clean_row raw)
              \<union> set named_candidates"
    by (simp only: set_append keys_default_tariffs)
  have e: "alt_country ?e
             = fst (scan (scenario_map out) (fx_adj out) (base_cost ?e) (candidates out)
                      (supplier_country ?e, scenario_landed_cost ?e))"
    by (simp add: table_nth [OF assms(1,3)] alt_columns_sel cost_columns_sel)
  have "alt_country ?e = supplier_country ?e \<or> alt_country ?e \<in> set (candidates out)"
    unfolding e by (rule scan_country)
  then show ?thesis
    unfolding s by blast
qed

theorem alt_country_candidates_witness:
  "run remdups sample_header germany_rows (germany_rate 0) 1
     = Inr (tables remdups (map clean_row germany_rows) (germany_rate 0) 1) \<and>
   set_order remdups \<and> 1 < length germany_rows \<and>
   alt_country (table (tables remdups (map clean_row germany_rows) (germany_rate 0) 1) ! 1)
     \<in> set (keys builtin_tariffs) \<union> set named_candidates
         \<union> supplier_country ` set (map clean_row germany_rows)"
proof -
  let ?out = "tables remdups (map clean_row germany_rows) (germany_rate 0) 1"
  have h: "run remdups sample_header germany_rows (germany_rate 0) 1 = Inr ?out"
    by (rule run_germany_rows)
  have o: "set_order remdups"
    by (simp add: set_order_def)
  have i: "1 < length germany_rows"
    by (simp add: germany_rows_def)
  have n: "alt_country (table ?out ! 1) \<noteq> supplier_country (table ?out ! 1)"
    by code_simp
  from alt_country_candidates [OF h o i] n h o i show ?thesis
    by blast
qed

text \<open>
  C5: when the scenario landed cost of a record equals the least landed cost over the
  candidate countries, the alternative country is the record's current supplier country.
\<close>

theorem tie_keeps_current:
  assumes "run set_iter header raw widgets fx = Inr out" and "i < length raw"
    and "candidates out \<noteq> []"
    and "scenario_landed_cost (table out ! i)
           = py_min (map (alt_cost_of (scenario_map out) (fx_adj out) (base_cost (table out ! i)))
                       (candidates out))"
  shows "alt_country (table out ! i) = supplier_country (table out ! i)"
proof -
  let ?e = "table out ! i"
  let ?cost = "alt_cost_of (scenario_map out) (fx_adj out) (base_cost ?e)"
  have bc: "base_cost ?e \<noteq> NotNum"
    by (simp add: table_nth [OF assms(1,2)] alt_columns_sel cost_columns_sel base_cost_clean_row)
  have "\<forall>y \<in> set (map ?cost (candidates out)). y \<noteq> NotNum"
    using alt_cost_not_nan [OF bc run_rates_nonneg [OF assms(1)]] by simp
  then have "\<forall>c \<in> set (candidates out). py_min (map ?cost (candidates out)) \<le> ?cost c"
    by (simp add: py_min_le)
  then have "\<forall>c \<in> set (candidates out). scenario_landed_cost ?e \<le> ?cost c"
    by (simp only: assms(4) [symmetric])
  then have "scan (scenario_map out) (fx_adj out) (base_cost ?e) (candidates out)
               (supplier_country ?e, scenario_landed_cost ?e)
             = (supplier_country ?e, scenario_landed_cost ?e)"
    by (rule scan_keep)
  then show ?thesis
    by (simp add: table_nth [OF assms(1,2)] alt_columns_sel cost_columns_sel)
qed

theorem tie_keeps_current_witness:
  "run remdups sample_header sample_rows (china_rate 0) 1
     = Inr (tables remdups (map clean_row sample_rows) (china_rate 0) 1) \<and>
   0 < length sample_rows \<and>
   candidates (tables remdups (map clean_row sample_rows) (china_rate 0) 1) \<noteq> [] \<and>
   scenario_landed_cost (table (tables remdups (map clean_row sample_rows) (china_rate 0) 1) ! 0)
     = py_min (map (alt_cost_of
                      (scenario_map (tables remdups (map clean_row sample_rows) (china_rate 0) 1))
                      (fx_adj (tables remdups (map clean_row sample_rows) (china_rate 0) 1))
                      (base_cost (table (tables remdups (map clean_row sample_rows) (china_rate 0) 1) ! 0)))
                 (candidates (tables remdups (map clean_row sample_rows) (china_rate 0) 1))) \<and>
   supplier_country (table (tables remdups (map clean_row sample_rows) (china_rate 0) 1) ! 0)
     = ''China'' \<and>
   alt_country (table (tables remdups (map clean_row sample_rows) (china_rate 0) 1) ! 0) = ''China''"
proof -
  let ?out = "tables remdups (map clean_row sample_rows) (china_rate 0) 1"
  have h: "run remdups sample_header sample_rows (china_rate 0) 1 = Inr ?out"
    by (rule run_sample_rows)
  have i: "0 < length sample_rows"
    by (simp add: sample_rows_def)
  have c: "candidates ?out \<noteq> []"
    by code_simp
  have m: "scenario_landed_cost (table ?out ! 0)
     = py_min (map (alt_cost_of (scenario_map ?out) (fx_adj ?out) (base_cost (table ?out ! 0)))
                 (candidates ?out))"
    by code_simp
  have s: "supplier_country (table ?out ! 0) = ''China''"
    by code_simp
  from tie_keeps_current [OF h i c m] h i c m s show ?thesis
    by simp
qed

text \<open>
  C6: for every record, the landed cost of the alternative is at most the record's
  scenario landed cost.
\<close>

theorem alt_never_worse:
  assumes "run set_iter header raw widgets fx = Inr out" and "i < length raw"
  shows "alt_landed_cost (table out ! i) \<le> scenario_landed_cost (table out ! i)"
  using scenario_not_nan [OF assms]
  by (simp add: table_nth [OF assms] alt_columns_sel scan_cost_le)

theorem alt_never_worse_witness:
  "run remdups sample_header sample_rows untouched 1
     = Inr (tables remdups (map clean_row sample_rows) untouched 1) \<and>
   0 < length sample_rows \<and>
   alt_landed_cost (table (tables remdups (map clean_row sample_rows) untouched 1) ! 0)
     \<le> scenario_landed_cost (table (tables remdups (map clean_row sample_rows) untouched 1) ! 0) \<and>
   alt_landed_cost (table (tables remdups (map clean_row sample_rows) untouched 1) ! 0)
     = Fin (25 / 2) \<and>
   scenario_landed_cost (table (tables remdups (map clean_row sample_rows) untouched 1) ! 0)
     = Fin 15"
proof -
  let ?out = "tables remdups (map clean_row sample_rows) untouched 1"
  have h: "run remdups sample_header sample_rows untouched 1 = Inr ?out"
    by (rule run_sample_rows)
  have i: "0 < length sample_rows"
    by (simp add: sample_rows_def)
  have v: "alt_landed_cost (table ?out ! 0) = Fin (25 / 2)"
    "scenario_landed_cost (table ?out ! 0) = Fin 15"
    by code_simp+
  from alt_never_worse [OF h i] h i v show ?thesis
    by blast
qed

text \<open>
  C7: for every record, the savings per unit are the larger of 0 and the scenario landed
  cost minus the alternative's landed cost, hence never negative, and the annual savings
  are the savings per unit times the annual units.
\<close>

theorem savings_fields:
  assumes "run set_iter header raw widgets fx = Inr out" and "i < length raw"
  shows "savings_per_unit_if_switch (table out ! i)
           = max 0 (scenario_landed_cost (table out ! i) - alt_landed_cost (table out ! i)) \<and>
         0 \<le> savings_per_unit_if_switch (table out ! i) \<and>
         annual_savings_if_switch (table out ! i)
           = savings_per_unit_if_switch (table out ! i)
               * Fin (real_of_int (annual_units (table out ! i)))"
  by (simp add: table_nth [OF assms] alt_columns_sel max_0_nonneg)

theorem savings_fields_witness:
  "run remdups sample_header sample_rows untouched 1
     = Inr (tables remdups (map clean_row sample_rows) untouched 1) \<and>
   0 < length sample_rows \<and>
   savings_per_unit_if_switch (table (tables remdups (map clean_row sample_rows) untouched 1) ! 0)
     = Fin (5 / 2) \<and>
   0 \<le> savings_per_unit_if_switch
          (table (tables remdups (map clean_row sample_rows) untouched 1) ! 0) \<and>
   annual_savings_if_switch (table (tables remdups (map clean_row sample_rows) untouched 1) ! 0)
     = Fin 50000"
proof -
  let ?e = "table (tables remdups (map clean_row sample_rows) untouched 1) ! 0"
  have h: "run remdups sample_header sample_rows untouched 1
             = Inr (tables remdups (map clean_row sample_rows) untouched 1)"
    by (rule run_sample_rows)
  have i: "0 < length sample_rows"
    by (simp add: sample_rows_def)
  have v: "alt_landed_cost ?e = Fin (25 / 2)" "scenario_landed_cost ?e = Fin 15"
    "annual_units ?e = 20000"
    by code_simp+
  have m: "max 0 (Fin 15 - Fin (25 / 2)) = Fin (5 / 2)"
    by (simp add: minus_pyfloat_def max_def zero_pyfloat_def)
  note f = savings_fields [OF h i]
  have a: "savings_per_unit_if_switch ?e = Fin (5 / 2)"
    using f unfolding v m by blast
  have b: "0 \<le> savings_per_unit_if_switch ?e"
    using f by blast
  have c: "annual_savings_if_switch ?e = Fin 50000"
    using f unfolding v m by simp
  from h i a b c show ?thesis
    by blast
qed

text \<open>
  With an infinite base cost every landed cost is infinite: the scenario cost minus the
  alternative's cost is not a number, and the lower bound 0 decides the savings.
\<close>

theorem savings_unclamped_counterexample:
  "run remdups sample_header inf_rows untouched 1
     = Inr (tables remdups (map clean_row inf_rows) untouched 1) \<and>
   scenario_landed_cost (table (tables remdups (map clean_row inf_rows) untouched 1) ! 0) = PosInf \<and>
   alt_landed_cost (table (tables remdups (map clean_row inf_rows) untouched 1) ! 0) = PosInf \<and>
   savings_per_unit_if_switch (table (tables remdups (map clean_row inf_rows) untouched 1) ! 0)
     = Fin 0 \<and>
   scenario_landed_cost (table (tables remdups (map clean_row inf_rows) untouched 1) ! 0)
     - alt_landed_cost (table (tables remdups (map clean_row inf_rows) untouched 1) ! 0) = NotNum"
proof -
  let ?e = "table (tables remdups (map clean_row inf_rows) untouched 1) ! 0"
  have "run remdups sample_header inf_rows untouched 1
     = Inr (tables remdups (map clean_row inf_rows) untouched 1)"
    by (rule run_inf_rows)
  moreover have "scenario_landed_cost ?e = PosInf" "alt_landed_cost ?e = PosInf"
    "savings_per_unit_if_switch ?e = Fin 0"
    "scenario_landed_cost ?e - alt_landed_cost ?e = NotNum"
    by code_simp+
  ultimately show ?thesis by blast
qed

text \<open>
  C10 (as amended): for every record, the savings per unit equal the scenario landed cost
  minus the alternative's landed cost, except when the scenario landed cost is infinite
  and the alternative's landed cost is the same infinity: there the difference is not a
  number and the savings are 0. For a finite scenario landed cost the lower bound 0 never
  takes effect.
\<close>

theorem savings_unclamped:
  assumes "run set_iter header raw widgets fx = Inr out" and "i < length raw"
  shows "savings_per_unit_if_switch (table out ! i)
           = (if alt_landed_cost (table out ! i) = scenario_landed_cost (table out ! i) \<and>
                 (scenario_landed_cost (table out ! i) = PosInf \<or>
                  scenario_landed_cost (table out ! i) = NegInf)
              then 0
              else scenario_landed_cost (table out ! i) - alt_landed_cost (table out ! i))"
proof -
  let ?e = "table out ! i"
  have le: "alt_landed_cost ?e \<le> scenario_landed_cost ?e"
    using assms by (rule alt_le_scenario)
  have sv: "savings_per_unit_if_switch ?e = max 0 (scenario_landed_cost ?e - alt_landed_cost ?e)"
    by (simp add: table_nth [OF assms] alt_columns_sel)
  have cond: "(alt_landed_cost ?e = scenario_landed_cost ?e \<and>
                 (scenario_landed_cost ?e = PosInf \<or> scenario_landed_cost ?e = NegInf))
              = (scenario_landed_cost ?e - alt_landed_cost ?e = NotNum)"
    by (simp only: diff_nan_iff [OF le])
  show ?thesis
  proof (cases "scenario_landed_cost ?e - alt_landed_cost ?e = NotNum")
    case True
    then show ?thesis
      unfolding cond sv by (simp add: max_0_nan)
  next
    case False
    then show ?thesis
      unfolding cond sv by (simp add: max_0_diff [OF le])
  qed
qed

theorem savings_unclamped_witness:
  "run remdups sample_header sample_rows untouched 1
     = Inr (tables remdups (map clean_row sample_rows) untouched 1) \<and>
   1 < length sample_rows \<and>
   savings_per_unit_if_switch (table (tables remdups (map clean_row sample_rows) untouched 1) ! 1)
     = Fin (82 / 125) \<and>
   run remdups sample_header inf_rows untouched 1
     = Inr (tables remdups (map clean_row inf_rows) untouched 1) \<and>
   0 < length inf_rows \<and>
   savings_per_unit_if_switch (table (tables remdups (map clean_row inf_rows) untouched 1) ! 0) = 0"
proof -
  let ?e = "table (tables remdups (map clean_row sample_rows) untouched 1) ! 1"
  let ?f = "table (tables remdups (map clean_row inf_rows) untouched 1) ! 0"
  have h: "run remdups sample_header sample_rows untouched 1
             = Inr (tables remdups (map clean_row sample_rows) untouched 1)"
    by (rule run_sample_rows)
  have i: "1 < length sample_rows"
    by (simp add: sample_rows_def)
  have v: "alt_landed_cost ?e = Fin (41 / 5)" "scenario_landed_cost ?e = Fin (1107 / 125)"
    by code_simp+
  have a: "savings_per_unit_if_switch ?e = Fin (82 / 125)"
    using savings_unclamped [OF h i] unfolding v by (simp add: minus_pyfloat_def)
  have k: "run remdups sample_header inf_rows untouched 1
             = Inr (tables remdups (map clean_row inf_rows) untouched 1)"
    by (rule run_inf_rows)
  have j: "0 < length inf_rows"
    by (simp add: inf_rows_def)
  have w: "alt_landed_cost ?f = PosInf" "scenario_landed_cost ?f = PosInf"
    by code_simp+
  have b: "savings_per_unit_if_switch ?f = 0"
    using savings_unclamped [OF k j] unfolding w by simp
  from h i a k j b show ?thesis
    by blast
qed

subsection \<open>Aggregates\<close>

text \<open>
  C8 asks for zero or empty aggregates on an empty record set. The script does not get
  that far: with a valid header and no rows the run ends with \<^verbatim>\<open>ValueError\<close> when the
  recommendation columns are assigned, whatever the widgets hold. (The guard against a
  baseline total of 0 itself works, as \<open>pct_guard\<close> shows.)
\<close>

theorem header_only_faults:
  "run set_iter sample_header [] widgets fx = Inl (Uncaught ValueError)"
proof -
  have "clean sample_header [] = Inr []"
    using sample_header_clean [of "[]"] by simp
  then show ?thesis
    by (simp add: run_def sample_header_ok compute_def)
qed

subsection \<open>Determinism\<close>

text \<open>
  C9: two runs on the same header, rows, widget state and FX slider position give the same
  result (the same error, or the same maps, table and aggregate views), whatever order
  the interpreter enumerates sets in during either run.
\<close>

theorem run_deterministic:
  assumes "set_order it1" and "set_order it2"
  shows "run it1 header raw widgets fx = run it2 header raw widgets fx"
  by (simp add: run_def compute_def tables_order [OF assms] cong: sum.case_cong if_cong)

theorem run_deterministic_witness:
  "set_order remdups \<and> set_order reversed_iter \<and>
   run remdups sample_header sample_rows untouched 1
     = run reversed_iter sample_header sample_rows untouched 1"
proof -
  have a: "set_order remdups"
    by (simp add: set_order_def)
  have b: "set_order reversed_iter"
    by (simp add: set_order_def reversed_iter_def)
  from run_deterministic [OF a b] a b show ?thesis
    by blast
qed

end
